theory Spec2Isabelle
  imports Main "HOL-Library.Word"
begin

unbundle bit_operations_syntax

section \<open>Input handles: \<^verbatim>\<open>in.c\<close>\<close>

text \<open>
  Pointers are 64-bit addresses (\<open>NULL\<close> is 0) and \<open>size_t\<close> is a 64-bit word, so that
  pointer differences converted to \<open>size_t\<close> wrap as they do in C on an LP64 target.
  Logging (\<open>LOGERR\<close>, \<open>LOGVAL\<close>, \<open>LOGMEM\<close>) has no influence on any result and is left out.
\<close>

type_synonym addr = "64 word"
type_synonym size_t = "64 word"
type_synonym byte = "8 word"

text \<open>The error codes of \<open>LY_ERR\<close> (declared in \<^verbatim>\<open>log.h\<close>).\<close>

datatype LY_ERR = LY_SUCCESS | LY_EMEM | LY_ESYS | LY_EINVAL | LY_EEXIST | LY_ENOTFOUND
  | LY_EINT | LY_EVALID | LY_EDENIED | LY_EINCOMPLETE | LY_ENOT | LY_EOTHER

datatype LY_IN_TYPE = LY_IN_ERROR | LY_IN_FD | LY_IN_FILE | LY_IN_FILEPATH | LY_IN_MEMORY

text \<open>
  The union \<open>method\<close> of \<open>struct ly_in\<close>: a file descriptor, a \<open>FILE *\<close>, or a descriptor
  with the duplicated path. \<open>Method_zero\<close> is the union as \<open>calloc\<close> leaves it, which is all
  a memory handle ever holds.
\<close>

datatype ly_in_method = Method_zero | Method_fd int | Method_f addr | Method_fpath int string

text \<open>
  \<open>struct ly_in\<close>, with the fields the functions of \<^verbatim>\<open>in.c\<close> read and write. The field
  \<open>length\<close> is named \<open>length_in\<close> and the union \<open>method\<close> is named \<open>method_u\<close>.
\<close>

record ly_in =
  type :: LY_IN_TYPE
  current :: addr
  func_start :: addr
  start :: addr
  length_in :: size_t
  method_u :: ly_in_method

text \<open>
  What the functions of \<^verbatim>\<open>in.c\<close> ask of the system: the outcome of
  \<open>ly_mmap(NULL, fd, &length, &addr)\<close> (its return code, \<open>length\<close> and \<open>addr\<close>; the function is
  in \<^verbatim>\<open>common.c\<close>), whether \<open>calloc\<close> returns memory, \<open>fileno\<close> of a stream and
  \<open>open(path, O_RDONLY)\<close>.
\<close>

record sys =
  sys_ly_mmap :: "int \<Rightarrow> LY_ERR \<times> size_t \<times> addr"
  sys_calloc :: bool
  sys_fileno :: "addr \<Rightarrow> int"
  sys_open :: "string \<Rightarrow> int"

text \<open>
  The constructors take the out-parameter \<open>struct ly_in **in\<close> as \<open>None\<close> (a \<open>NULL\<close> pointer)
  or \<open>Some slot\<close>, the slot holding \<open>None\<close> (\<open>NULL\<close>) or a handle. They return the error code,
  the out-parameter with what the call stored in the slot, and the calls of \<open>ly_munmap\<close> they
  made, each with its address and length.
\<close>

definition ly_in_type :: "ly_in option \<Rightarrow> LY_IN_TYPE" where
  "ly_in_type inp = (case inp of None \<Rightarrow> LY_IN_ERROR | Some h \<Rightarrow> type h)"

definition ly_in_new_fd ::
  "sys \<Rightarrow> int \<Rightarrow> ly_in option option \<Rightarrow> LY_ERR \<times> ly_in option option \<times> (addr \<times> size_t) list" where
  "ly_in_new_fd s fd in_p =
     (if \<not> 0 \<le> fd \<or> in_p = None then (LY_EINVAL, in_p, [])
      else case sys_ly_mmap s fd of (ret, len, a) \<Rightarrow>
        if ret \<noteq> LY_SUCCESS then (ret, in_p, [])
        else if a = 0 then (LY_EINVAL, in_p, [])
        else if \<not> sys_calloc s then (LY_EMEM, Some None, [(a, len)])
        else (LY_SUCCESS,
              Some (Some \<lparr>type = LY_IN_FD, current = a, func_start = a, start = a,
                           length_in = len, method_u = Method_fd fd\<rparr>),
              []))"

definition ly_in_new_file ::
  "sys \<Rightarrow> addr \<Rightarrow> ly_in option option \<Rightarrow> LY_ERR \<times> ly_in option option \<times> (addr \<times> size_t) list" where
  "ly_in_new_file s f in_p =
     (if f = 0 \<or> in_p = None then (LY_EINVAL, in_p, [])
      else case ly_in_new_fd s (sys_fileno s f) in_p of (ret, slot, unmapped) \<Rightarrow>
        if ret \<noteq> LY_SUCCESS then (ret, slot, unmapped)
        else (LY_SUCCESS,
              map_option (map_option (\<lambda>h. h\<lparr>type := LY_IN_FILE, method_u := Method_f f\<rparr>)) slot,
              unmapped))"

definition ly_in_new_memory ::
  "sys \<Rightarrow> addr \<Rightarrow> ly_in option option \<Rightarrow> LY_ERR \<times> ly_in option option" where
  "ly_in_new_memory s str in_p =
     (if str = 0 \<or> in_p = None then (LY_EINVAL, in_p)
      else if \<not> sys_calloc s then (LY_EMEM, Some None)
      else (LY_SUCCESS,
            Some (Some \<lparr>type = LY_IN_MEMORY, current = str, func_start = str, start = str,
                         length_in = 0, method_u = Method_zero\<rparr>)))"

definition ly_in_reset :: "ly_in option \<Rightarrow> LY_ERR \<times> ly_in option" where
  "ly_in_reset inp =
     (case inp of
        None \<Rightarrow> (LY_EINVAL, None)
      | Some h \<Rightarrow> (LY_SUCCESS, Some (h\<lparr>func_start := start h, current := start h\<rparr>)))"

text \<open>
  \<open>filepath\<close> is \<open>None\<close> for a \<open>NULL\<close> pointer. \<open>strndup\<close> keeps at most \<open>len\<close> characters
  of it, \<open>strdup\<close> all of them.
\<close>

definition ly_in_new_filepath ::
  "sys \<Rightarrow> string option \<Rightarrow> size_t \<Rightarrow> ly_in option option
     \<Rightarrow> LY_ERR \<times> ly_in option option \<times> (addr \<times> size_t) list" where
  "ly_in_new_filepath s filepath len in_p =
     (case filepath of
        None \<Rightarrow> (LY_EINVAL, in_p, [])
      | Some path \<Rightarrow>
          if in_p = None then (LY_EINVAL, in_p, [])
          else
            let fp = (if len \<noteq> 0 then take (unat len) path else path);
                fd = sys_open s fp
            in if fd = - 1 then (LY_ESYS, in_p, [])
               else case ly_in_new_fd s fd in_p of (ret, slot, unmapped) \<Rightarrow>
                 if ret \<noteq> LY_SUCCESS then (ret, slot, unmapped)
                 else (LY_SUCCESS,
                       map_option
                         (map_option (\<lambda>h. h\<lparr>type := LY_IN_FILEPATH, method_u := Method_fpath fd fp\<rparr>))
                         slot,
                       unmapped))"

text \<open>
  \<open>memcpy(buf, in->current, count)\<close> over a byte-addressed memory: the bytes that end up
  in \<open>buf\<close>.
\<close>

definition memcpy :: "(addr \<Rightarrow> byte) \<Rightarrow> addr \<Rightarrow> size_t \<Rightarrow> byte list" where
  "memcpy mem src count = map (\<lambda>i. mem (src + of_nat i)) [0..<unat count]"

text \<open>
  \<open>ly_in_read\<close> returns the error code, the handle and the contents of \<open>buf\<close> (\<open>None\<close> when
  \<open>buf\<close> was not written). The test is the source's: \<open>in->current - in->start\<close> is converted
  to \<open>size_t\<close> for the subtraction from \<open>in->length\<close>.
\<close>

definition ly_in_read ::
  "(addr \<Rightarrow> byte) \<Rightarrow> ly_in \<Rightarrow> size_t \<Rightarrow> LY_ERR \<times> ly_in \<times> byte list option" where
  "ly_in_read mem inp count =
     (if length_in inp \<noteq> 0 \<and> length_in inp - (current inp - start inp) < count
      then (LY_EDENIED, inp, None)
      else (LY_SUCCESS, inp\<lparr>current := current inp + count\<rparr>,
            Some (memcpy mem (current inp) count)))"

definition ly_in_parsed :: "ly_in \<Rightarrow> size_t" where
  "ly_in_parsed inp = current inp - func_start inp"

definition ly_in_skip :: "ly_in \<Rightarrow> size_t \<Rightarrow> LY_ERR \<times> ly_in" where
  "ly_in_skip inp count =
     (if length_in inp \<noteq> 0 \<and> length_in inp - (current inp - start inp) < count
      then (LY_EDENIED, inp)
      else (LY_SUCCESS, inp\<lparr>current := current inp + count\<rparr>))"

subsection \<open>Notions the statements about handles use\<close>

text \<open>
  The number of bytes between the start of the data and the current position, and the
  number of bytes of the recorded length that lie at or after the current position.
\<close>

definition ly_in_offset :: "ly_in \<Rightarrow> nat" where
  "ly_in_offset inp = unat (current inp - start inp)"

definition ly_in_remaining :: "ly_in \<Rightarrow> nat" where
  "ly_in_remaining inp = unat (length_in inp) - ly_in_offset inp"

text \<open>
  \<open>strlen\<close> of the C string at an address, looking at no more than the given number of
  bytes: \<open>None\<close> when no terminator is among them.
\<close>

fun c_strlen :: "(addr \<Rightarrow> byte) \<Rightarrow> addr \<Rightarrow> nat \<Rightarrow> nat option" where
  "c_strlen mem a 0 = None"
| "c_strlen mem a (Suc n) =
     (if mem a = 0 then Some 0 else map_option Suc (c_strlen mem (a + 1) n))"

text \<open>A memory holding the string \<open>"abc"\<close> with its terminator at address \<open>0x1000\<close>.\<close>

definition abc_mem :: "addr \<Rightarrow> byte" where
  "abc_mem a = (if a = 0x1000 then 0x61 else if a = 0x1001 then 0x62
                else if a = 0x1002 then 0x63 else 0)"

text \<open>
  The bounds claim about skipping, for a handle reading a source of which \<open>avail\<close> bytes
  remain: too few bytes give \<open>LY_EDENIED\<close> and the handle unchanged, enough give
  \<open>LY_SUCCESS\<close> and the position advanced by \<open>count\<close>.
\<close>

definition skip_is_bounded :: "ly_in \<Rightarrow> nat \<Rightarrow> size_t \<Rightarrow> bool" where
  "skip_is_bounded inp avail count =
     (ly_in_skip inp count =
        (if avail < unat count then (LY_EDENIED, inp)
         else (LY_SUCCESS, inp\<lparr>current := current inp + count\<rparr>)))"

subsection \<open>Sample systems and handles\<close>

text \<open>
  A system in which descriptor 3 is an empty regular file (\<open>ly_mmap\<close> succeeds and reports no
  address), descriptor 4 is a file mapped with length 6 at \<open>0x2000\<close>, the stream at
  \<open>0x5000\<close> has descriptor 3, and the two paths open as descriptors 3 and 4.
\<close>

definition example_sys :: sys where
  "example_sys =
     \<lparr>sys_ly_mmap = (\<lambda>fd. if fd = 3 then (LY_SUCCESS, 0, 0)
                            else if fd = 4 then (LY_SUCCESS, 6, 0x2000)
                            else (LY_ESYS, 0, 0)),
      sys_calloc = True,
      sys_fileno = (\<lambda>f. if f = 0x5000 then 3 else 4),
      sys_open = (\<lambda>p. if p = ''empty.lyb'' then 3 else if p = ''data.lyb'' then 4 else - 1)\<rparr>"

text \<open>
  The handle \<open>ly_in_new_memory\<close> makes for the string at \<open>0x1000\<close>, and the handle
  \<open>ly_in_new_fd\<close> makes for descriptor 4.
\<close>

definition abc_handle :: ly_in where
  "abc_handle = \<lparr>type = LY_IN_MEMORY, current = 0x1000, func_start = 0x1000, start = 0x1000,
                  length_in = 0, method_u = Method_zero\<rparr>"

definition data_handle :: ly_in where
  "data_handle = \<lparr>type = LY_IN_FD, current = 0x2000, func_start = 0x2000, start = 0x2000,
                  length_in = 6, method_u = Method_fd 4\<rparr>"

section \<open>Parser helpers: \<^verbatim>\<open>in.c\<close>, second part\<close>

text \<open>
  The flag constants the parser helpers test are macros of \<^verbatim>\<open>tree_schema.h\<close>,
  \<^verbatim>\<open>parser_data.h\<close> and \<^verbatim>\<open>parser_internal.h\<close>. The functions take them as a
  parameter, so that every statement holds whatever their values are; node types and node
  flags are 16-bit fields, the option words are 32 bits wide.
\<close>

record lys_flags =
  LYS_RPC :: "16 word"
  LYS_ACTION :: "16 word"
  LYS_NOTIF :: "16 word"
  LYS_CONFIG_R :: "16 word"
  LYD_PARSE_ONLY :: "32 word"
  LYD_PARSE_NO_STATE :: "32 word"
  LYD_INTOPT_RPC :: "32 word"
  LYD_INTOPT_REPLY :: "32 word"
  LYD_INTOPT_NOTIF :: "32 word"

text \<open>The fields of \<open>struct lysc_node\<close> that the schema check reads.\<close>

record lysc_node =
  nodetype :: "16 word"
  flags :: "16 word"
  name :: string

text \<open>
  \<open>struct lyd_ctx\<close>: the options, the three sets of deferred items (each an \<open>ly_set\<close> of
  pointers, kept in insertion order) and the operation node parsed so far (\<open>NULL\<close> is 0).
\<close>

record lyd_ctx =
  parse_options :: "32 word"
  int_opts :: "32 word"
  node_types :: "addr list"
  meta_types :: "addr list"
  node_when :: "addr list"
  op_node :: addr

text \<open>
  \<open>lyd_parser_check_schema\<close> never writes to the context; the context is returned with the
  error code so that statements can say so.
\<close>

definition lyd_parser_check_schema :: "lys_flags \<Rightarrow> lyd_ctx \<Rightarrow> lysc_node \<Rightarrow> LY_ERR \<times> lyd_ctx" where
  "lyd_parser_check_schema c lydctx snode =
     (if parse_options lydctx AND LYD_PARSE_NO_STATE c \<noteq> 0 \<and> flags snode AND LYS_CONFIG_R c \<noteq> 0
      then (LY_EVALID, lydctx)
      else if nodetype snode AND (LYS_RPC c OR LYS_ACTION c) \<noteq> 0 then
        (if int_opts lydctx AND (LYD_INTOPT_RPC c OR LYD_INTOPT_REPLY c) \<noteq> 0 then
           (if op_node lydctx \<noteq> 0 then (LY_EVALID, lydctx) else (LY_SUCCESS, lydctx))
         else (LY_EVALID, lydctx))
      else if nodetype snode = LYS_NOTIF c then
        (if int_opts lydctx AND LYD_INTOPT_NOTIF c \<noteq> 0 then
           (if op_node lydctx \<noteq> 0 then (LY_EVALID, lydctx) else (LY_SUCCESS, lydctx))
         else (LY_EVALID, lydctx))
      else (LY_SUCCESS, lydctx))"

text \<open>
  Modelled from the spec: \<open>ly_set_add\<close> is defined in \<^verbatim>\<open>set.c\<close>, which is not among
  the sources. The deferred-resolution set offers \<open>add_node_type(node)\<close> and
  \<open>add_meta_type(meta)\<close>, which add the item to the set, and an allocation failure for a
  deferred set is fatal and reported distinctly. The call sites pass the list flag 1, so
  the item is appended without a search for duplicates. \<open>alloc_ok\<close> says whether the
  set can grow.
\<close>

definition ly_set_add :: "bool \<Rightarrow> addr list \<Rightarrow> addr \<Rightarrow> LY_ERR \<times> addr list" where
  "ly_set_add alloc_ok set_objs object =
     (if alloc_ok then (LY_SUCCESS, set_objs @ [object]) else (LY_EMEM, set_objs))"

text \<open>
  \<open>lyd_create_term\<close> and \<open>lyd_create_meta\<close> are defined in \<^verbatim>\<open>tree_data.c\<close>; their
  outcome is the parameter \<open>created\<close>: the return code, the flag \<open>incomplete\<close> and the
  created item (for metadata, what the call leaves in \<open>*meta\<close>). The functions return the
  error code, the context and the out-parameter.
\<close>

definition lyd_parser_create_term ::
  "lys_flags \<Rightarrow> LY_ERR \<times> bool \<times> addr \<Rightarrow> bool \<Rightarrow> lyd_ctx \<Rightarrow> LY_ERR \<times> lyd_ctx \<times> addr" where
  "lyd_parser_create_term c created alloc_ok lydctx =
     (case created of (ret, incomplete, node) \<Rightarrow>
        if ret \<noteq> LY_SUCCESS then (ret, lydctx, node)
        else if incomplete \<and> \<not> (parse_options lydctx AND LYD_PARSE_ONLY c \<noteq> 0) then
          (case ly_set_add alloc_ok (node_types lydctx) node of (r, objs) \<Rightarrow>
             if r \<noteq> LY_SUCCESS then (r, lydctx\<lparr>node_types := objs\<rparr>, node)
             else (LY_SUCCESS, lydctx\<lparr>node_types := objs\<rparr>, node))
        else (LY_SUCCESS, lydctx, node))"

text \<open>
  \<open>meta\<close> is \<open>None\<close> for a \<open>NULL\<close> pointer and \<open>Some m\<close> when \<open>*meta\<close> is \<open>m\<close> on
  entry. The result is \<open>None\<close> where the source dereferences a \<open>NULL\<close> \<open>meta\<close>.
\<close>

definition lyd_parser_create_meta ::
  "lys_flags \<Rightarrow> LY_ERR \<times> bool \<times> addr \<Rightarrow> bool \<Rightarrow> lyd_ctx \<Rightarrow> addr option
     \<Rightarrow> (LY_ERR \<times> lyd_ctx \<times> addr option) option" where
  "lyd_parser_create_meta c created alloc_ok lydctx meta =
     (let first = (case meta of None \<Rightarrow> 0 | Some m \<Rightarrow> m) in
      case created of (ret, incomplete, mt) \<Rightarrow>
        let meta1 = map_option (\<lambda>_. mt) meta in
        if ret \<noteq> LY_SUCCESS then Some (ret, lydctx, meta1)
        else if incomplete \<and> \<not> (parse_options lydctx AND LYD_PARSE_ONLY c \<noteq> 0) then
          (case meta1 of
             None \<Rightarrow> None
           | Some m \<Rightarrow>
               (case ly_set_add alloc_ok (meta_types lydctx) m of (r, objs) \<Rightarrow>
                  if r \<noteq> LY_SUCCESS then Some (r, lydctx\<lparr>meta_types := objs\<rparr>, meta1)
                  else Some (LY_SUCCESS, lydctx\<lparr>meta_types := objs\<rparr>,
                             if first \<noteq> 0 then Some first else meta1)))
        else Some (LY_SUCCESS, lydctx, if first \<noteq> 0 then Some first else meta1))"

subsection \<open>Notions the statements about the parser helpers use\<close>

definition snode_is_rpc_action :: "lys_flags \<Rightarrow> lysc_node \<Rightarrow> bool" where
  "snode_is_rpc_action c snode = (nodetype snode = LYS_RPC c \<or> nodetype snode = LYS_ACTION c)"

definition snode_is_notif :: "lys_flags \<Rightarrow> lysc_node \<Rightarrow> bool" where
  "snode_is_notif c snode = (nodetype snode = LYS_NOTIF c)"

definition rpc_or_reply_requested :: "lys_flags \<Rightarrow> lyd_ctx \<Rightarrow> bool" where
  "rpc_or_reply_requested c lydctx = (int_opts lydctx AND (LYD_INTOPT_RPC c OR LYD_INTOPT_REPLY c) \<noteq> 0)"

definition notif_requested :: "lys_flags \<Rightarrow> lyd_ctx \<Rightarrow> bool" where
  "notif_requested c lydctx = (int_opts lydctx AND LYD_INTOPT_NOTIF c \<noteq> 0)"

definition no_state_requested :: "lys_flags \<Rightarrow> lyd_ctx \<Rightarrow> bool" where
  "no_state_requested c lydctx = (parse_options lydctx AND LYD_PARSE_NO_STATE c \<noteq> 0)"

definition snode_is_state :: "lys_flags \<Rightarrow> lysc_node \<Rightarrow> bool" where
  "snode_is_state c snode = (flags snode AND LYS_CONFIG_R c \<noteq> 0)"

definition parse_only_requested :: "lys_flags \<Rightarrow> lyd_ctx \<Rightarrow> bool" where
  "parse_only_requested c lydctx = (parse_options lydctx AND LYD_PARSE_ONLY c \<noteq> 0)"

text \<open>
  The node-type constants are well formed when RPC and action are non-zero and the
  notification constant shares no bit with them. A node's type is a single kind when it
  is RPC or action exactly, or shares no bit with either.
\<close>

definition nodetype_flags_ok :: "lys_flags \<Rightarrow> bool" where
  "nodetype_flags_ok c =
     (LYS_RPC c \<noteq> 0 \<and> LYS_ACTION c \<noteq> 0 \<and> LYS_NOTIF c AND (LYS_RPC c OR LYS_ACTION c) = 0)"

definition nodetype_single :: "lys_flags \<Rightarrow> lysc_node \<Rightarrow> bool" where
  "nodetype_single c snode =
     (snode_is_rpc_action c snode \<or> nodetype snode AND (LYS_RPC c OR LYS_ACTION c) = 0)"

subsection \<open>Sample constants, nodes and contexts\<close>

definition example_flags :: lys_flags where
  "example_flags =
     \<lparr>LYS_RPC = 0x100, LYS_ACTION = 0x200, LYS_NOTIF = 0x400, LYS_CONFIG_R = 0x02,
      LYD_PARSE_ONLY = 0x010000, LYD_PARSE_NO_STATE = 0x100000,
      LYD_INTOPT_RPC = 0x01, LYD_INTOPT_REPLY = 0x02, LYD_INTOPT_NOTIF = 0x04\<rparr>"

definition rpc_node :: lysc_node where
  "rpc_node = \<lparr>nodetype = 0x100, flags = 0, name = ''reboot''\<rparr>"

definition notif_node :: lysc_node where
  "notif_node = \<lparr>nodetype = 0x400, flags = 0, name = ''link-down''\<rparr>"

definition state_leaf :: lysc_node where
  "state_leaf = \<lparr>nodetype = 0x004, flags = 0x02, name = ''counter''\<rparr>"

definition example_ctx :: "32 word \<Rightarrow> 32 word \<Rightarrow> addr \<Rightarrow> lyd_ctx" where
  "example_ctx popts iopts op =
     \<lparr>parse_options = popts, int_opts = iopts, node_types = [], meta_types = [],
      node_when = [], op_node = op\<rparr>"

section \<open>The LYB format constants: \<^verbatim>\<open>lyb.h\<close>\<close>

type_synonym LYB_HASH = "8 word"

definition LYB_HASH_BITS :: nat where
  "LYB_HASH_BITS = 8"

definition LYB_HASH_MASK :: "8 word" where
  "LYB_HASH_MASK = 0x7f"

definition LYB_HASH_COLLISION_ID :: "8 word" where
  "LYB_HASH_COLLISION_ID = 0x80"

definition LYB_SIZE_BYTES :: nat where
  "LYB_SIZE_BYTES = 1"

definition LYB_SIZE_MAX :: nat where
  "LYB_SIZE_MAX = 255"

definition LYB_INCHUNK_BYTES :: nat where
  "LYB_INCHUNK_BYTES = 1"

definition LYB_INCHUNK_MAX :: nat where
  "LYB_INCHUNK_MAX = 255"

definition LYB_META_BYTES :: nat where
  "LYB_META_BYTES = LYB_INCHUNK_BYTES + LYB_SIZE_BYTES"

text \<open>\<open>struct lyd_lyb_subtree\<close>: one open subtree of the printer or parser.\<close>

record lyd_lyb_subtree =
  written :: size_t
  position :: size_t
  inner_chunks :: byte

text \<open>
  Modelled from the spec: \<open>lyb_hash\<close> is defined in \<^verbatim>\<open>lyb.c\<close>, which is not among the
  sources. The hash resolver computes a structural hash of the node, "then truncates to a
  7-bit value and sets bit 7 according to the unary-encoded collision id: collision id 0
  sets the top bit, collision id 1 sets the second-from-top bit and clears the top bit, and
  so on: each increment of collision id shifts the leading 1 marker one place right and
  shortens the usable hash field by one bit". The header says of \<open>LYB_HASH_COLLISION_ID\<close>:
  "need to move this first >> collision number (from 0) to get collision ID hash part",
  and of \<open>LYB_HASH_MASK\<close>: "masking 32b hash (collision ID 0)". \<open>full_hash\<close> is the 32-bit
  structural hash.
\<close>

definition lyb_hash :: "32 word \<Rightarrow> nat \<Rightarrow> LYB_HASH" where
  "lyb_hash full_hash collision_id =
     (ucast full_hash AND drop_bit collision_id LYB_HASH_MASK)
       OR drop_bit collision_id LYB_HASH_COLLISION_ID"

text \<open>
  Modelled from the spec: the collision id of a hash byte is the "number of leading bits
  before the first 1"; the header: "first bits are collision ID until 1 is found".
\<close>

definition lyb_collision_id :: "LYB_HASH \<Rightarrow> nat" where
  "lyb_collision_id hash = length (takeWhile (\<lambda>i. \<not> bit hash i) (rev [0..<LYB_HASH_BITS]))"

section \<open>Theorems about input handles\<close>

lemma eof_test_nat:
  fixes len off count :: size_t
  assumes "unat off \<le> unat len"
  shows "len - off < count \<longleftrightarrow> unat len - unat off < unat count"
  using assms by (simp add: word_less_nat_alt unat_sub word_le_nat_alt)

lemma advance_offset:
  fixes cur st count len :: size_t
  assumes "unat (cur - st) + unat count \<le> unat len"
  shows "unat (cur + count - st) = unat (cur - st) + unat count"
proof -
  have e: "cur + count - st = (cur - st) + count" by simp
  have "unat len < 2 ^ 64"
    using unsigned_less [of len, where ?'a = nat] by simp
  then have "unat (cur - st) + unat count < 2 ^ LENGTH(64)"
    using assms by simp
  then have "unat ((cur - st) + count) = unat (cur - st) + unat count"
    by (rule unat_add_lem [THEN iffD1])
  then show ?thesis by (simp only: e)
qed

text \<open>
  Claim C9. Resetting a non-\<open>NULL\<close> handle always succeeds; it puts the current position
  and the function-start mark back at the start of the data and leaves the type, the
  start, the length and the underlying source as they were; the bytes-consumed query then
  returns 0; and resetting the result again changes nothing.
\<close>

theorem ly_in_reset_restarts:
  "\<exists>h. ly_in_reset (Some inp) = (LY_SUCCESS, Some h)
       \<and> current h = start inp \<and> func_start h = start inp
       \<and> type h = type inp \<and> start h = start inp \<and> length_in h = length_in inp
       \<and> method_u h = method_u inp
       \<and> ly_in_parsed h = 0
       \<and> ly_in_reset (Some h) = ly_in_reset (Some inp)"
  by (simp add: ly_in_reset_def ly_in_parsed_def)

theorem ly_in_reset_restarts_witness:
  "ly_in_reset (Some \<lparr>type = LY_IN_FD, current = 0x2005, func_start = 0x2003, start = 0x2000,
                        length_in = 9, method_u = Method_fd 3\<rparr>)
     = (LY_SUCCESS, Some \<lparr>type = LY_IN_FD, current = 0x2000, func_start = 0x2000, start = 0x2000,
                        length_in = 9, method_u = Method_fd 3\<rparr>)"
  using ly_in_reset_restarts [of "\<lparr>type = LY_IN_FD, current = 0x2005, func_start = 0x2003,
    start = 0x2000, length_in = 9, method_u = Method_fd 3\<rparr>"]
  by (simp add: ly_in_reset_def)

text \<open>
  Claim C7. \<open>ly_in_parsed\<close> counts the bytes consumed since the function-start mark: it
  is 0 right after the mark is set to the current position, after a reset and on a new
  handle; a successful read or skip of \<open>n\<close> bytes adds exactly \<open>n\<close> to it (in \<open>size_t\<close>
  arithmetic, and as a number when the sum fits in 64 bits); a failed read or skip leaves
  it as it was.
\<close>

theorem ly_in_parsed_counts:
  "ly_in_parsed (inp\<lparr>func_start := current inp\<rparr>) = 0
   \<and> (\<forall>h. ly_in_reset (Some inp) = (LY_SUCCESS, Some h) \<longrightarrow> ly_in_parsed h = 0)
   \<and> (\<forall>h u. ly_in_new_fd s fd in_p = (LY_SUCCESS, Some (Some h), u) \<longrightarrow> ly_in_parsed h = 0)
   \<and> (\<forall>h u. ly_in_new_file s f in_p = (LY_SUCCESS, Some (Some h), u) \<longrightarrow> ly_in_parsed h = 0)
   \<and> (\<forall>h u. ly_in_new_filepath s path len in_p = (LY_SUCCESS, Some (Some h), u) \<longrightarrow>
          ly_in_parsed h = 0)
   \<and> (\<forall>h. ly_in_new_memory s str in_p = (LY_SUCCESS, Some (Some h)) \<longrightarrow> ly_in_parsed h = 0)
   \<and> ly_in_parsed (snd (ly_in_skip inp n)) =
        (if fst (ly_in_skip inp n) = LY_SUCCESS then ly_in_parsed inp + n else ly_in_parsed inp)
   \<and> ly_in_parsed (fst (snd (ly_in_read mem inp n))) =
        (if fst (ly_in_read mem inp n) = LY_SUCCESS then ly_in_parsed inp + n else ly_in_parsed inp)
   \<and> (fst (ly_in_skip inp n) = LY_SUCCESS \<and> unat (ly_in_parsed inp) + unat n < 2 ^ 64 \<longrightarrow>
        unat (ly_in_parsed (snd (ly_in_skip inp n))) = unat (ly_in_parsed inp) + unat n)
   \<and> (fst (ly_in_read mem inp n) = LY_SUCCESS \<and> unat (ly_in_parsed inp) + unat n < 2 ^ 64 \<longrightarrow>
        unat (ly_in_parsed (fst (snd (ly_in_read mem inp n)))) = unat (ly_in_parsed inp) + unat n)"
proof -
  have mark: "ly_in_parsed (inp\<lparr>func_start := current inp\<rparr>) = 0"
    by (simp add: ly_in_parsed_def)
  have reset: "\<forall>h. ly_in_reset (Some inp) = (LY_SUCCESS, Some h) \<longrightarrow> ly_in_parsed h = 0"
    by (auto simp: ly_in_reset_def ly_in_parsed_def)
  have newfd: "\<forall>h u. ly_in_new_fd s fd in_p = (LY_SUCCESS, Some (Some h), u) \<longrightarrow> ly_in_parsed h = 0"
    by (auto simp: ly_in_new_fd_def ly_in_parsed_def split: if_splits prod.splits)
  have newfile: "\<forall>h u. ly_in_new_file s f in_p = (LY_SUCCESS, Some (Some h), u) \<longrightarrow> ly_in_parsed h = 0"
    by (auto simp: ly_in_new_file_def ly_in_new_fd_def ly_in_parsed_def
        split: if_splits prod.splits)
  have newpath: "\<forall>h u. ly_in_new_filepath s path len in_p = (LY_SUCCESS, Some (Some h), u) \<longrightarrow>
      ly_in_parsed h = 0"
    by (auto simp: ly_in_new_filepath_def ly_in_new_fd_def ly_in_parsed_def Let_def
        split: if_splits prod.splits option.splits)
  have newmem: "\<forall>h. ly_in_new_memory s str in_p = (LY_SUCCESS, Some (Some h)) \<longrightarrow> ly_in_parsed h = 0"
    by (auto simp: ly_in_new_memory_def ly_in_parsed_def split: if_splits)
  have skip: "ly_in_parsed (snd (ly_in_skip inp n)) =
        (if fst (ly_in_skip inp n) = LY_SUCCESS then ly_in_parsed inp + n else ly_in_parsed inp)"
    by (simp add: ly_in_skip_def ly_in_parsed_def)
  have read: "ly_in_parsed (fst (snd (ly_in_read mem inp n))) =
        (if fst (ly_in_read mem inp n) = LY_SUCCESS then ly_in_parsed inp + n else ly_in_parsed inp)"
    by (simp add: ly_in_read_def ly_in_parsed_def)
  have nat_add: "unat (ly_in_parsed inp + n) = unat (ly_in_parsed inp) + unat n"
    if "unat (ly_in_parsed inp) + unat n < 2 ^ 64"
    using that unat_add_lem [of "ly_in_parsed inp" n] by simp
  have skip_nat: "fst (ly_in_skip inp n) = LY_SUCCESS \<and> unat (ly_in_parsed inp) + unat n < 2 ^ 64 \<longrightarrow>
        unat (ly_in_parsed (snd (ly_in_skip inp n))) = unat (ly_in_parsed inp) + unat n"
    using skip nat_add by simp
  have read_nat: "fst (ly_in_read mem inp n) = LY_SUCCESS \<and> unat (ly_in_parsed inp) + unat n < 2 ^ 64 \<longrightarrow>
        unat (ly_in_parsed (fst (snd (ly_in_read mem inp n)))) = unat (ly_in_parsed inp) + unat n"
    using read nat_add by simp
  from mark reset newfd newfile newpath newmem skip read skip_nat read_nat show ?thesis
    by blast
qed

theorem ly_in_parsed_counts_witness:
  "ly_in_parsed (snd (ly_in_skip data_handle 4)) = 4
   \<and> ly_in_parsed (snd (ly_in_skip data_handle 7)) = 0
   \<and> unat (ly_in_parsed (fst (snd (ly_in_read abc_mem data_handle 4)))) = 4
   \<and> ly_in_parsed (snd (ly_in_skip (data_handle\<lparr>current := 0x2004\<rparr>) 2)) = 6"
proof -
  have fits: "unat (ly_in_parsed data_handle) + unat (4 :: size_t) < 2 ^ 64"
    by (simp add: ly_in_parsed_def data_handle_def)
  have ok: "fst (ly_in_read abc_mem data_handle 4) = LY_SUCCESS"
    by (simp add: ly_in_read_def data_handle_def)
  show ?thesis
    using fits ok
      ly_in_parsed_counts [of data_handle example_sys 4 "Some None" 0 None 0 0 4 abc_mem]
      ly_in_parsed_counts [of data_handle example_sys 4 "Some None" 0 None 0 0 7 abc_mem]
      ly_in_parsed_counts [of "data_handle\<lparr>current := 0x2004\<rparr>" example_sys 4 "Some None"
        0 None 0 0 2 abc_mem]
    by (simp add: ly_in_skip_def ly_in_parsed_def data_handle_def)
qed

text \<open>
  Claim C1, as the code has it. The end-of-input test is made only for a handle with a
  recorded length (one made from a file descriptor, a stream or a path). For such a handle
  whose position lies within the recorded length, a read or skip of \<open>count\<close> bytes fails
  with \<open>LY_EDENIED\<close> and leaves the handle unchanged when fewer than \<open>count\<close> bytes of
  the recorded length remain, and otherwise succeeds and advances the position by exactly
  \<open>count\<close>. A handle with length 0, which is what a memory handle has, is never tested:
  every read or skip succeeds and advances the position by \<open>count\<close>.
\<close>

theorem ly_in_read_skip_bounds:
  "(length_in inp \<noteq> 0 \<and> ly_in_offset inp \<le> unat (length_in inp) \<longrightarrow>
      skip_is_bounded inp (ly_in_remaining inp) count
      \<and> ly_in_read mem inp count =
          (if ly_in_remaining inp < unat count then (LY_EDENIED, inp, None)
           else (LY_SUCCESS, inp\<lparr>current := current inp + count\<rparr>,
                 Some (memcpy mem (current inp) count)))
      \<and> (unat count \<le> ly_in_remaining inp \<longrightarrow>
           ly_in_offset (inp\<lparr>current := current inp + count\<rparr>) = ly_in_offset inp + unat count))
   \<and> (length_in inp = 0 \<longrightarrow>
        ly_in_skip inp count = (LY_SUCCESS, inp\<lparr>current := current inp + count\<rparr>)
        \<and> ly_in_read mem inp count =
            (LY_SUCCESS, inp\<lparr>current := current inp + count\<rparr>,
             Some (memcpy mem (current inp) count)))"
proof -
  have mapped_test:
    "length_in inp - (current inp - start inp) < count \<longleftrightarrow> ly_in_remaining inp < unat count"
    if "ly_in_offset inp \<le> unat (length_in inp)"
    using that eof_test_nat [of "current inp - start inp" "length_in inp" count]
    by (simp add: ly_in_offset_def ly_in_remaining_def)
  have adv: "ly_in_offset (inp\<lparr>current := current inp + count\<rparr>) = ly_in_offset inp + unat count"
    if "ly_in_offset inp \<le> unat (length_in inp)" and "unat count \<le> ly_in_remaining inp"
    using that advance_offset [of "current inp" "start inp" count "length_in inp"]
    by (simp add: ly_in_offset_def ly_in_remaining_def)
  show ?thesis
    using mapped_test adv
    by (simp add: skip_is_bounded_def ly_in_skip_def ly_in_read_def)
qed

theorem ly_in_read_skip_bounds_witness:
  "ly_in_skip data_handle 7 = (LY_EDENIED, data_handle)
   \<and> ly_in_skip data_handle 6 = (LY_SUCCESS, data_handle\<lparr>current := 0x2006\<rparr>)
   \<and> ly_in_skip (data_handle\<lparr>current := 0x2006\<rparr>) 1 = (LY_EDENIED, data_handle\<lparr>current := 0x2006\<rparr>)
   \<and> ly_in_read abc_mem data_handle 7 = (LY_EDENIED, data_handle, None)
   \<and> ly_in_skip abc_handle 10 = (LY_SUCCESS, abc_handle\<lparr>current := 0x100A\<rparr>)"
  using ly_in_read_skip_bounds [of data_handle 7 abc_mem]
    ly_in_read_skip_bounds [of data_handle 6 abc_mem]
    ly_in_read_skip_bounds [of "data_handle\<lparr>current := 0x2006\<rparr>" 1 abc_mem]
    ly_in_read_skip_bounds [of abc_handle 10 abc_mem]
  by (simp add: data_handle_def abc_handle_def skip_is_bounded_def ly_in_offset_def ly_in_remaining_def)

text \<open>
  Claim C1 as stated fails for a memory handle. The handle made for the string \<open>"abc"\<close>
  has 4 bytes left, terminator included; skipping or reading 10 bytes succeeds and moves
  the position 10 bytes on.
\<close>

theorem ly_in_skip_memory_unbounded:
  "ly_in_new_memory example_sys 0x1000 (Some None) = (LY_SUCCESS, Some (Some abc_handle))
   \<and> c_strlen abc_mem (current abc_handle) 8 = Some 3
   \<and> \<not> skip_is_bounded abc_handle 4 10
   \<and> ly_in_skip abc_handle 10 = (LY_SUCCESS, abc_handle\<lparr>current := 0x100A\<rparr>)
   \<and> fst (ly_in_read abc_mem abc_handle 10) = LY_SUCCESS"
proof -
  have new: "ly_in_new_memory example_sys 0x1000 (Some None) = (LY_SUCCESS, Some (Some abc_handle))"
    by (simp add: ly_in_new_memory_def example_sys_def abc_handle_def)
  have len: "c_strlen abc_mem (current abc_handle) 8 = Some 3"
    by code_simp
  have skip: "ly_in_skip abc_handle 10 = (LY_SUCCESS, abc_handle\<lparr>current := 0x100A\<rparr>)"
    by (simp add: ly_in_skip_def abc_handle_def)
  have unbounded: "\<not> skip_is_bounded abc_handle 4 10"
    by (simp add: skip_is_bounded_def skip)
  have read: "fst (ly_in_read abc_mem abc_handle 10) = LY_SUCCESS"
    by (simp add: ly_in_read_def abc_handle_def)
  from new len unbounded skip read show ?thesis by simp
qed

text \<open>
  Claim C8, as the code has it. When \<open>ly_mmap\<close> succeeds and reports no address, which is
  how an empty file shows, \<open>ly_in_new_fd\<close>, \<open>ly_in_new_file\<close> and \<open>ly_in_new_filepath\<close>
  return \<open>LY_EINVAL\<close> and store no handle. There is no mapping at that point and
  \<open>ly_munmap\<close> is not called.
\<close>

theorem ly_in_new_empty_file:
  "0 \<le> fd \<and> sys_ly_mmap s fd = (LY_SUCCESS, len, 0) \<longrightarrow>
     ly_in_new_fd s fd (Some slot) = (LY_EINVAL, Some slot, [])
     \<and> (f \<noteq> 0 \<and> sys_fileno s f = fd \<longrightarrow>
          ly_in_new_file s f (Some slot) = (LY_EINVAL, Some slot, []))
     \<and> (sys_open s (if n \<noteq> 0 then take (unat n) path else path) = fd \<longrightarrow>
          ly_in_new_filepath s (Some path) n (Some slot) = (LY_EINVAL, Some slot, []))"
proof -
  have of_fd: "ly_in_new_fd s fd (Some slot) = (LY_EINVAL, Some slot, [])"
    if "0 \<le> fd" and "sys_ly_mmap s fd = (LY_SUCCESS, len, 0)"
    using that by (simp add: ly_in_new_fd_def)
  have of_file: "ly_in_new_file s f (Some slot) = (LY_EINVAL, Some slot, [])"
    if "0 \<le> fd" and "sys_ly_mmap s fd = (LY_SUCCESS, len, 0)" and "f \<noteq> 0" and "sys_fileno s f = fd"
    using that of_fd by (simp add: ly_in_new_file_def)
  have of_path: "ly_in_new_filepath s (Some path) n (Some slot) = (LY_EINVAL, Some slot, [])"
    if "0 \<le> fd" and "sys_ly_mmap s fd = (LY_SUCCESS, len, 0)"
      and "sys_open s (if n \<noteq> 0 then take (unat n) path else path) = fd"
    using that of_fd by (auto simp: ly_in_new_filepath_def Let_def)
  from of_fd of_file of_path show ?thesis by blast
qed

theorem ly_in_new_empty_file_witness:
  "ly_in_new_fd example_sys 3 (Some None) = (LY_EINVAL, Some None, [])
   \<and> ly_in_new_file example_sys 0x5000 (Some None) = (LY_EINVAL, Some None, [])
   \<and> ly_in_new_filepath example_sys (Some ''empty.lyb'') 0 (Some None) = (LY_EINVAL, Some None, [])"
  using ly_in_new_empty_file [of 3 example_sys 0 None "0x5000" 0 "''empty.lyb''"]
  by (simp add: example_sys_def)

text \<open>
  Claim C8 as stated says that a mapping is released before the return. On the empty file
  of the sample system none of the three constructors calls \<open>ly_munmap\<close>.
\<close>

theorem ly_in_new_empty_file_no_munmap:
  "snd (snd (ly_in_new_fd example_sys 3 (Some None))) = []
   \<and> snd (snd (ly_in_new_file example_sys 0x5000 (Some None))) = []
   \<and> snd (snd (ly_in_new_filepath example_sys (Some ''empty.lyb'') 0 (Some None))) = []
   \<and> sys_ly_mmap example_sys 3 = (LY_SUCCESS, 0, 0)"
  by (simp add: ly_in_new_fd_def ly_in_new_file_def ly_in_new_filepath_def example_sys_def)

section \<open>Theorems about the parser helpers\<close>

lemma rpc_action_mask:
  assumes "nodetype_flags_ok c" and "snode_is_rpc_action c snode"
  shows "nodetype snode AND (LYS_RPC c OR LYS_ACTION c) \<noteq> 0"
proof -
  have "LYS_RPC c AND (LYS_RPC c OR LYS_ACTION c) = LYS_RPC c"
    by (simp add: bit_eq_iff bit_simps)
  moreover have "LYS_ACTION c AND (LYS_RPC c OR LYS_ACTION c) = LYS_ACTION c"
    by (simp add: bit_eq_iff bit_simps)
  ultimately show ?thesis
    using assms by (auto simp: nodetype_flags_ok_def snode_is_rpc_action_def)
qed

text \<open>
  Claim C2. Where the state-node check does not reject the node, the schema check returns
  \<open>LY_EVALID\<close> exactly when the node is an RPC or action and neither RPC nor reply mode
  was requested, or it is a notification and notification mode was not requested, or it
  is an RPC, action or notification in its requested mode and an operation node has
  already been parsed; otherwise it returns \<open>LY_SUCCESS\<close>. The verdict is the return value
  of the call and the context, with its deferred sets, is left as it was.
\<close>

theorem check_schema_operation_context:
  assumes "nodetype_flags_ok c" and "nodetype_single c snode"
    and "\<not> (no_state_requested c lydctx \<and> snode_is_state c snode)"
  shows "(fst (lyd_parser_check_schema c lydctx snode) = LY_EVALID \<longleftrightarrow>
            snode_is_rpc_action c snode \<and> \<not> rpc_or_reply_requested c lydctx
          \<or> snode_is_notif c snode \<and> \<not> notif_requested c lydctx
          \<or> (snode_is_rpc_action c snode \<and> rpc_or_reply_requested c lydctx
              \<or> snode_is_notif c snode \<and> notif_requested c lydctx) \<and> op_node lydctx \<noteq> 0)
       \<and> (fst (lyd_parser_check_schema c lydctx snode) \<noteq> LY_EVALID \<longrightarrow>
            fst (lyd_parser_check_schema c lydctx snode) = LY_SUCCESS)
       \<and> snd (lyd_parser_check_schema c lydctx snode) = lydctx"
proof (cases "snode_is_rpc_action c snode")
  case True
  then have mask: "nodetype snode AND (LYS_RPC c OR LYS_ACTION c) \<noteq> 0"
    using assms(1) by (rule rpc_action_mask [rotated])
  have "\<not> snode_is_notif c snode"
    using mask assms(1) by (auto simp: snode_is_notif_def nodetype_flags_ok_def)
  then show ?thesis
    using True mask assms(3)
    by (simp add: lyd_parser_check_schema_def rpc_or_reply_requested_def
        no_state_requested_def snode_is_state_def)
next
  case False
  then have mask: "nodetype snode AND (LYS_RPC c OR LYS_ACTION c) = 0"
    using assms(2) by (simp add: nodetype_single_def)
  show ?thesis
    using False mask assms(3)
    by (simp add: lyd_parser_check_schema_def notif_requested_def snode_is_notif_def
        no_state_requested_def snode_is_state_def)
qed

theorem check_schema_operation_context_witness:
  "fst (lyd_parser_check_schema example_flags (example_ctx 0 0 0) rpc_node) = LY_EVALID
   \<and> fst (lyd_parser_check_schema example_flags (example_ctx 0 0x01 0) rpc_node) = LY_SUCCESS
   \<and> fst (lyd_parser_check_schema example_flags (example_ctx 0 0x01 0x7000) rpc_node) = LY_EVALID
   \<and> fst (lyd_parser_check_schema example_flags (example_ctx 0 0x01 0) notif_node) = LY_EVALID
   \<and> fst (lyd_parser_check_schema example_flags (example_ctx 0 0x04 0) notif_node) = LY_SUCCESS
   \<and> fst (lyd_parser_check_schema example_flags (example_ctx 0 0x04 0) state_leaf) = LY_SUCCESS"
proof -
  have ok: "nodetype_flags_ok example_flags"
    by (simp add: nodetype_flags_ok_def example_flags_def)
  have single: "nodetype_single example_flags rpc_node" "nodetype_single example_flags notif_node"
    "nodetype_single example_flags state_leaf"
    by (simp_all add: nodetype_single_def snode_is_rpc_action_def example_flags_def
        rpc_node_def notif_node_def state_leaf_def)
  have passes: "\<not> (no_state_requested example_flags (example_ctx 0 i p) \<and> snode_is_state example_flags n)"
    for i p n
    by (simp add: no_state_requested_def example_ctx_def)
  note rl = check_schema_operation_context [OF ok _ passes]
  show ?thesis
    using rl [OF single(1), of 0 0] rl [OF single(1), of 1 0] rl [OF single(1), of 1 "0x7000"]
      rl [OF single(2), of 1 0] rl [OF single(2), of 4 0] rl [OF single(3), of 4 0]
    by (simp add: snode_is_rpc_action_def snode_is_notif_def rpc_or_reply_requested_def
        notif_requested_def example_flags_def example_ctx_def rpc_node_def notif_node_def
        state_leaf_def)
qed

text \<open>
  Claim C10. With the no-state option set, the schema check rejects every state node with
  \<open>LY_EVALID\<close>, whatever the node's type, the requested modes and the operation node
  are. Without the option the state flag has no influence on the result, and a node that
  is no RPC, action or notification is accepted.
\<close>

theorem check_schema_no_state:
  "(no_state_requested c lydctx \<and> snode_is_state c snode \<longrightarrow>
      lyd_parser_check_schema c lydctx snode = (LY_EVALID, lydctx))
   \<and> (\<not> no_state_requested c lydctx \<longrightarrow>
        lyd_parser_check_schema c lydctx snode = lyd_parser_check_schema c lydctx (snode\<lparr>flags := 0\<rparr>))
   \<and> (\<not> no_state_requested c lydctx \<and> nodetype snode AND (LYS_RPC c OR LYS_ACTION c) = 0
        \<and> nodetype snode \<noteq> LYS_NOTIF c \<longrightarrow>
        lyd_parser_check_schema c lydctx snode = (LY_SUCCESS, lydctx))"
  by (simp add: lyd_parser_check_schema_def no_state_requested_def snode_is_state_def)

theorem check_schema_no_state_witness:
  "lyd_parser_check_schema example_flags (example_ctx 0x100000 0x01 0) state_leaf
     = (LY_EVALID, example_ctx 0x100000 0x01 0)
   \<and> lyd_parser_check_schema example_flags (example_ctx 0x100000 0x01 0) (rpc_node\<lparr>flags := 0x02\<rparr>)
     = (LY_EVALID, example_ctx 0x100000 0x01 0)
   \<and> lyd_parser_check_schema example_flags (example_ctx 0 0x01 0) state_leaf
     = (LY_SUCCESS, example_ctx 0 0x01 0)"
proof -
  have rejected: "lyd_parser_check_schema example_flags (example_ctx 0x100000 0x01 0) n
      = (LY_EVALID, example_ctx 0x100000 0x01 0)" if "flags n = 0x02" for n
    using that check_schema_no_state [THEN conjunct1, of example_flags "example_ctx 0x100000 0x01 0" n]
    by (simp add: no_state_requested_def snode_is_state_def example_flags_def example_ctx_def)
  have passed: "lyd_parser_check_schema example_flags (example_ctx 0 0x01 0) state_leaf
      = (LY_SUCCESS, example_ctx 0 0x01 0)"
    using check_schema_no_state [THEN conjunct2, THEN conjunct2,
        of example_flags "example_ctx 0 0x01 0" state_leaf]
    by (simp add: no_state_requested_def example_flags_def example_ctx_def state_leaf_def)
  show ?thesis
    using rejected [of state_leaf] rejected [of "rpc_node\<lparr>flags := 0x02\<rparr>"] passed
    by (simp add: state_leaf_def)
qed

text \<open>
  Claim C3, as the code has it. When the value-creation step succeeds and reports the
  value incomplete, the term node is appended to \<open>node_types\<close> and the metadata to
  \<open>meta_types\<close>, unless the parse-only option is set, in which case nothing is deferred.
  Items with complete values are not added. When the creation step fails, its error is
  returned and nothing is added; when the set cannot grow, \<open>LY_EMEM\<close> is returned.
\<close>

theorem create_defers_incomplete:
  "lyd_parser_create_term c (LY_SUCCESS, incomplete, node) True lydctx =
      (LY_SUCCESS,
       (if incomplete \<and> \<not> parse_only_requested c lydctx
        then lydctx\<lparr>node_types := node_types lydctx @ [node]\<rparr> else lydctx),
       node)
   \<and> lyd_parser_create_meta c (LY_SUCCESS, incomplete, mt) True lydctx (Some m) =
      Some (LY_SUCCESS,
            (if incomplete \<and> \<not> parse_only_requested c lydctx
             then lydctx\<lparr>meta_types := meta_types lydctx @ [mt]\<rparr> else lydctx),
            Some (if m \<noteq> 0 then m else mt))
   \<and> (ret \<noteq> LY_SUCCESS \<longrightarrow>
        lyd_parser_create_term c (ret, incomplete, node) ok lydctx = (ret, lydctx, node)
        \<and> lyd_parser_create_meta c (ret, incomplete, mt) ok lydctx (Some m) = Some (ret, lydctx, Some mt))
   \<and> (incomplete \<and> \<not> parse_only_requested c lydctx \<longrightarrow>
        lyd_parser_create_term c (LY_SUCCESS, incomplete, node) False lydctx = (LY_EMEM, lydctx, node)
        \<and> lyd_parser_create_meta c (LY_SUCCESS, incomplete, mt) False lydctx (Some m)
            = Some (LY_EMEM, lydctx, Some mt))"
  by (simp add: lyd_parser_create_term_def lyd_parser_create_meta_def ly_set_add_def
      parse_only_requested_def Let_def)

theorem create_defers_incomplete_witness:
  "lyd_parser_create_term example_flags (LY_SUCCESS, True, 0x7000) True (example_ctx 0 0 0)
     = (LY_SUCCESS, (example_ctx 0 0 0)\<lparr>node_types := [0x7000]\<rparr>, 0x7000)
   \<and> lyd_parser_create_term example_flags (LY_SUCCESS, False, 0x7000) True (example_ctx 0 0 0)
     = (LY_SUCCESS, example_ctx 0 0 0, 0x7000)
   \<and> lyd_parser_create_meta example_flags (LY_SUCCESS, True, 0x8000) True (example_ctx 0 0 0) (Some 0)
     = Some (LY_SUCCESS, (example_ctx 0 0 0)\<lparr>meta_types := [0x8000]\<rparr>, Some 0x8000)
   \<and> lyd_parser_create_term example_flags (LY_EVALID, False, 0) True (example_ctx 0 0 0)
     = (LY_EVALID, example_ctx 0 0 0, 0)
   \<and> lyd_parser_create_term example_flags (LY_SUCCESS, True, 0x7000) False (example_ctx 0 0 0)
     = (LY_EMEM, example_ctx 0 0 0, 0x7000)"
  using create_defers_incomplete [of example_flags True "0x7000" "example_ctx 0 0 0" "0x8000" 0 LY_EVALID True]
    create_defers_incomplete [of example_flags False "0x7000" "example_ctx 0 0 0" "0x8000" 0 LY_EVALID True]
    create_defers_incomplete [of example_flags False 0 "example_ctx 0 0 0" 0 0 LY_EVALID True]
  by (simp add: parse_only_requested_def example_flags_def example_ctx_def)

text \<open>
  Claim C3 as stated fails under the parse-only option: an incomplete term node and an
  incomplete metadata value are created successfully and neither set receives anything.
\<close>

theorem create_parse_only_defers_nothing:
  "parse_only_requested example_flags (example_ctx 0x010000 0 0)
   \<and> fst (lyd_parser_create_term example_flags (LY_SUCCESS, True, 0x7000) True
          (example_ctx 0x010000 0 0)) = LY_SUCCESS
   \<and> node_types (fst (snd (lyd_parser_create_term example_flags (LY_SUCCESS, True, 0x7000) True
          (example_ctx 0x010000 0 0)))) = []
   \<and> map_option (\<lambda>r. (fst r, meta_types (fst (snd r))))
         (lyd_parser_create_meta example_flags (LY_SUCCESS, True, 0x8000) True
            (example_ctx 0x010000 0 0) (Some 0)) = Some (LY_SUCCESS, [])"
  by (simp add: lyd_parser_create_term_def lyd_parser_create_meta_def parse_only_requested_def
      example_flags_def example_ctx_def)

section \<open>Theorems about the hash byte\<close>

lemma bit_hash_mask: "bit LYB_HASH_MASK n \<longleftrightarrow> n < 7"
proof -
  have e: "LYB_HASH_MASK = mask 7"
    by (simp add: LYB_HASH_MASK_def mask_eq_exp_minus_1)
  have "bit (mask 7 :: 8 word) n \<longleftrightarrow> n < 7"
    by (auto simp only: bit_mask_iff possible_bit_word len_bit0 len_of_numeral_defs)
  then show ?thesis by (simp only: e)
qed

lemma bit_hash_collision_id: "bit LYB_HASH_COLLISION_ID n \<longleftrightarrow> n = 7"
proof -
  have e: "LYB_HASH_COLLISION_ID = 2 ^ 7"
    by (simp add: LYB_HASH_COLLISION_ID_def)
  have "bit (2 ^ 7 :: 8 word) n \<longleftrightarrow> n = 7"
    by (auto simp only: bit_exp_iff possible_bit_word len_bit0 len_of_numeral_defs)
  then show ?thesis by (simp only: e)
qed

lemma bit_lyb_hash:
  "bit (lyb_hash h k) i \<longleftrightarrow> (k + i = 7 \<or> (k + i < 7 \<and> bit h i))"
  by (auto simp: lyb_hash_def bit_simps bit_hash_mask bit_hash_collision_id)

lemma rev_hash_bits: "rev [0..<LYB_HASH_BITS] = [7, 6, 5, 4, 3, 2, 1, 0]"
  by (simp add: LYB_HASH_BITS_def upt_rec [of _ "numeral n" for n] upt_rec [of _ "Suc n" for n])

lemma lyb_collision_id_hash:
  assumes "k < LYB_HASH_BITS"
  shows "lyb_collision_id (lyb_hash h k) = k"
proof -
  from assms consider "k = 0" | "k = 1" | "k = 2" | "k = 3" | "k = 4" | "k = 5" | "k = 6" | "k = 7"
    unfolding LYB_HASH_BITS_def by linarith
  then show ?thesis
    by cases (simp_all add: lyb_collision_id_def rev_hash_bits bit_lyb_hash)
qed

lemma lyb_hash_no_marker:
  assumes "LYB_HASH_BITS \<le> k"
  shows "lyb_hash h k = 0"
proof (rule bit_word_eqI)
  fix n
  show "bit (lyb_hash h k) n \<longleftrightarrow> bit (0 :: LYB_HASH) n"
    using assms by (simp add: bit_lyb_hash LYB_HASH_BITS_def)
qed

text \<open>
  Claim C4. For a collision id \<open>k\<close> below the hash width, the hash byte has its top \<open>k\<close>
  bits clear, bit \<open>7 - k\<close> set and the low \<open>7 - k\<close> bits of the structural hash below it,
  so that the collision id can be read back as the number of leading zero bits. From
  collision id 8 on no marker bit is left in the byte.
\<close>

theorem lyb_hash_layout:
  "(collision_id < LYB_HASH_BITS \<longrightarrow>
      (\<forall>i < LYB_HASH_BITS. bit (lyb_hash h collision_id) i \<longleftrightarrow>
          i = 7 - collision_id \<or> (i < 7 - collision_id \<and> bit h i))
      \<and> lyb_collision_id (lyb_hash h collision_id) = collision_id)
   \<and> (LYB_HASH_BITS \<le> collision_id \<longrightarrow> lyb_hash h collision_id = 0)"
proof -
  have bits: "bit (lyb_hash h collision_id) i \<longleftrightarrow>
      i = 7 - collision_id \<or> (i < 7 - collision_id \<and> bit h i)"
    if "collision_id < LYB_HASH_BITS" for i
    using that unfolding bit_lyb_hash LYB_HASH_BITS_def by auto
  show ?thesis
    using bits lyb_collision_id_hash [of collision_id h] lyb_hash_no_marker [of collision_id h]
    by blast
qed

theorem lyb_hash_layout_witness:
  "lyb_hash 0xABCDEF55 0 = 0xD5 \<and> lyb_hash 0xABCDEF55 1 = 0x55 \<and> lyb_hash 0xABCDEF55 2 = 0x35
   \<and> lyb_hash 0xABCDEF55 7 = 0x01 \<and> lyb_hash 0xABCDEF55 8 = 0
   \<and> lyb_collision_id (lyb_hash 0xABCDEF55 2) = 2"
  using lyb_hash_layout [of 2 "0xABCDEF55"] lyb_hash_layout [of 8 "0xABCDEF55"]
  by (simp add: lyb_hash_def LYB_HASH_BITS_def LYB_HASH_MASK_def LYB_HASH_COLLISION_ID_def)

text \<open>
  The sizes \<^verbatim>\<open>lyb.h\<close> gives the metadata of a chunk: one byte for the size and one for
  the inner chunk count, each holding at most 255.
\<close>

lemma lyb_meta_sizes:
  "LYB_META_BYTES = 2 \<and> LYB_SIZE_MAX = 2 ^ (8 * LYB_SIZE_BYTES) - 1
   \<and> LYB_INCHUNK_MAX = 2 ^ (8 * LYB_INCHUNK_BYTES) - 1"
  by (simp add: LYB_META_BYTES_def LYB_SIZE_MAX_def LYB_SIZE_BYTES_def LYB_INCHUNK_MAX_def
      LYB_INCHUNK_BYTES_def)

end
